theory Spec2Isabelle
  imports Complex_Main "HOL-Library.Multiset"
begin

section \<open>Pad-array routing: \<^verbatim>\<open>pp/routing/route_pad_array.py\<close>\<close>

text \<open>
  The development embeds the one function of the module, \<^verbatim>\<open>route_pad_array\<close>, and
  proves properties of it.

  Conventions of the embedding.
  \<^item> Python numbers that are coordinates and lengths (\<^verbatim>\<open>float\<close>, \<^verbatim>\<open>numpy.float64\<close>, or
    \<^verbatim>\<open>int\<close> used among them) are the values of a type \<open>'n\<close>. The arithmetic of the
    interpreter on them (binary floating point, with its rounding, and \<^verbatim>\<open>round\<close>) is a
    parameter: a record of operations about which nothing is assumed. Python integers
    that count (\<^verbatim>\<open>n_ports\<close>, the entries of \<^verbatim>\<open>pad_indices\<close>, lengths) are \<open>int\<close> and
    \<open>nat\<close>.
  \<^item> A \<^verbatim>\<open>dict\<close> is an association list in insertion order, read with \<open>map_of\<close>.
  \<^item> An exception is a value \<open>Inl e\<close> of the result type.
  \<^item> The objects the function creates through its collaborators (the pad prototype, the
    placed pad references, the routes) are recorded, in order of creation, in a list of
    events returned beside the result, also when the call raises.
\<close>

subsection \<open>Data\<close>

datatype error = KeyError | IndexError | AssertionError | ZeroDivisionError | Collaborator string

text \<open>
  The arithmetic of the interpreter: \<^verbatim>\<open>+\<close>, \<^verbatim>\<open>-\<close>, \<^verbatim>\<open>*\<close>, \<^verbatim>\<open>/\<close> and \<^verbatim>\<open><\<close> on numbers,
  \<^verbatim>\<open>round(x, 1)\<close>, and the conversion of an integer that meets a number in an operation.
  The quotient of two integers (\<^verbatim>\<open>-K / 2\<close>, \<^verbatim>\<open>K / n_ports\<close>) is taken as the quotient of
  their conversions. No division of the function has a zero divisor: \<open>N\<close> is not 0 after
  line 80, and \<^verbatim>\<open>n_ports\<close> is not 0 after line 133.
\<close>

record 'n arith =
  f_add :: "'n \<Rightarrow> 'n \<Rightarrow> 'n"
  f_sub :: "'n \<Rightarrow> 'n \<Rightarrow> 'n"
  f_mul :: "'n \<Rightarrow> 'n \<Rightarrow> 'n"
  f_div :: "'n \<Rightarrow> 'n \<Rightarrow> 'n"
  f_less :: "'n \<Rightarrow> 'n \<Rightarrow> bool"
  f_round1 :: "'n \<Rightarrow> 'n"
  f_int :: "int \<Rightarrow> 'n"

text \<open>The baseline that the function returns is the integer 0 (line 80) or a number.\<close>

datatype 'n number = PyInt int | PyFloat 'n

text \<open>A port: \<^verbatim>\<open>p.name\<close>, \<^verbatim>\<open>p.x\<close>, \<^verbatim>\<open>p.y\<close>.\<close>

record 'n port =
  pname :: string
  px :: 'n
  py :: 'n

text \<open>
  A \<^verbatim>\<open>Component\<close>: the device to route and the pad prototype are both components. Only
  the attributes the function reads are kept: \<^verbatim>\<open>ports\<close>, \<^verbatim>\<open>ymin\<close> and
  \<^verbatim>\<open>size_info.height\<close>.
\<close>

record 'n component =
  ports :: "(string \<times> 'n port) list"
  ymin :: 'n
  height :: 'n

text \<open>
  Modelled from the spec: \<^verbatim>\<open>Component.ref\<close> (module \<^verbatim>\<open>pp.component\<close>) is not part of the
  source file. A placed reference shares the prototype's shape and owns its position and
  rotation; it is represented by the prototype and the arguments of the call that made it.
\<close>

record 'n reference =
  parent :: "'n component"
  ref_x :: 'n
  ref_y :: 'n
  ref_rotation :: int
  ref_port_id :: string

text \<open>
  The list \<^verbatim>\<open>pads\<close> first holds the prototype \<open>N\<close> times (line 84) and later the placed
  references (line 147), so its elements are of either kind.
\<close>

datatype 'n pad_obj = Proto "'n component" | Placed "'n reference"

text \<open>A port of a pad object, \<^verbatim>\<open>pads[i].ports[port_name]\<close>, named by its owner and its key.\<close>

datatype 'n pad_port = PadPort "'n pad_obj" string

text \<open>The argument \<^verbatim>\<open>pad\<close> is a zero-argument factory or an instance (line 83).\<close>

datatype 'n pad_arg = PadFactory "'n component" | PadInstance "'n component"

text \<open>The value of \<^verbatim>\<open>direction_ports_from_list_ports\<close>: a dictionary with the four keys.\<close>

record 'n direction_ports =
  north :: "'n port list"
  south :: "'n port list"
  east :: "'n port list"
  west :: "'n port list"

text \<open>What the call has created so far.\<close>

datatype 'n event =
    Built "'n component"
  | Instantiated "'n pad_obj"
  | Routed "'n port" "'n pad_port"

text \<open>
  Code of the repository that the module imports and that is not in the source file is a
  parameter: the bucketing primitive \<^verbatim>\<open>direction_ports_from_list_ports\<close>, and what
  \<^verbatim>\<open>.ref(...)\<close> does when it is called on a placed reference instead of a component (the
  second and later rounds of the loop of line 146).
\<close>

record 'n collaborators =
  direction_ports_from_list_ports :: "'n port list \<Rightarrow> 'n direction_ports"
  ref_on_reference :: "'n reference \<Rightarrow> 'n \<Rightarrow> 'n \<Rightarrow> int \<Rightarrow> string \<Rightarrow> error + 'n pad_obj"

text \<open>The arguments of \<^verbatim>\<open>route_pad_array\<close>, under their own names. \<open>None\<close> is Python's.\<close>

record ('n, 'e) args =
  component :: "'n component"
  pad_spacing :: 'n
  pad :: "'n pad_arg"
  fanout_length :: 'n
  max_y0_optical :: "'n option"
  straight_separation :: 'n
  bend_radius :: 'n
  connected_port_list_ids :: "string list option"
  n_ports :: int
  excluded_ports :: "string list option"
  pad_indices :: "int list option"
  get_route_function :: "'n port \<Rightarrow> 'n pad_port \<Rightarrow> error + 'e list"
  port_name :: string
  pad_rotation :: int
  x_pad_offset :: 'n
  port_labels :: "string list option"
  select_ports :: "(string \<times> 'n port) list \<Rightarrow> (string \<times> 'n port) list"

subsection \<open>Python primitives\<close>

text \<open>\<^verbatim>\<open>d[k]\<close> on a dictionary raises \<^verbatim>\<open>KeyError\<close> for a missing key.\<close>

definition getitem :: "(string \<times> 'a) list \<Rightarrow> string \<Rightarrow> error + 'a" where
  "getitem d k = (case map_of d k of None \<Rightarrow> Inl KeyError | Some v \<Rightarrow> Inr v)"

text \<open>\<^verbatim>\<open>[d[k] for k in ks]\<close>: the first missing key ends the comprehension.\<close>

fun getitems :: "(string \<times> 'a) list \<Rightarrow> string list \<Rightarrow> error + 'a list" where
  "getitems d [] = Inr []"
| "getitems d (k # ks) =
     (case getitem d k of
        Inl e \<Rightarrow> Inl e
      | Inr v \<Rightarrow> (case getitems d ks of Inl e \<Rightarrow> Inl e | Inr vs \<Rightarrow> Inr (v # vs)))"

text \<open>\<^verbatim>\<open>sum(xs)\<close> adds from the left, starting from the integer 0.\<close>

definition py_sum :: "'n arith \<Rightarrow> 'n list \<Rightarrow> 'n" where
  "py_sum A xs = foldl (f_add A) (f_int A 0) xs"

text \<open>\<^verbatim>\<open>min(a, b)\<close> keeps its first argument unless the second is less.\<close>

definition py_min :: "'n arith \<Rightarrow> 'n \<Rightarrow> 'n \<Rightarrow> 'n" where
  "py_min A x y = (if f_less A y x then y else x)"

text \<open>\<^verbatim>\<open>xs[lo:hi]\<close> and \<^verbatim>\<open>xs[lo:]\<close> for indices that are not negative.\<close>

definition slice :: "'a list \<Rightarrow> nat \<Rightarrow> nat \<Rightarrow> 'a list" where
  "slice xs lo hi = drop lo (take hi xs)"

definition slice_from :: "'a list \<Rightarrow> nat \<Rightarrow> 'a list" where
  "slice_from xs lo = drop lo xs"

subsection \<open>The stages of \<^verbatim>\<open>route_pad_array\<close>\<close>

text \<open>Lines 71 to 77: the ports to route.\<close>

definition selected_ports :: "('n, 'e) args \<Rightarrow> error + 'n port list" where
  "selected_ports a =
     (let excluded = (case excluded_ports a of None \<Rightarrow> [] | Some xs \<Rightarrow> xs);
          chosen = (case port_labels a of
                      None \<Rightarrow> Inr (map snd (select_ports a (ports (component a))))
                    | Some lbls \<Rightarrow> getitems (ports (component a)) lbls)
      in case chosen of
           Inl e \<Rightarrow> Inl e
         | Inr ps \<Rightarrow> Inr (filter (\<lambda>p. pname p \<notin> set excluded) ps))"

text \<open>Line 83: \<^verbatim>\<open>pad = pad() if callable(pad) else pad\<close>.\<close>

fun pad_component :: "'n pad_arg \<Rightarrow> 'n component" where
  "pad_component (PadFactory c) = c"
| "pad_component (PadInstance c) = c"

fun pad_built :: "'n pad_arg \<Rightarrow> 'n event list" where
  "pad_built (PadFactory c) = [Built c]"
| "pad_built (PadInstance c) = []"

text \<open>Line 90: \<^verbatim>\<open>x_c = round(sum([p.x for p in ports]) / N, 1)\<close>.\<close>

definition x_center :: "'n arith \<Rightarrow> 'n port list \<Rightarrow> 'n" where
  "x_center A ps =
     f_round1 A (f_div A (py_sum A (map px ps)) (f_int A (int (length ps))))"

text \<open>Lines 97 and 98: \<^verbatim>\<open>K = len(ports); K = K + 1 if K % 2 else K\<close>.\<close>

definition padded_count :: "'a list \<Rightarrow> nat" where
  "padded_count ps = (let K = length ps in if K mod 2 \<noteq> 0 then K + 1 else K)"

text \<open>
  Lines 106 to 108: \<^verbatim>\<open>y0_optical = y_min - fanout_length - pad.ports[port_name].x\<close>, then
  \<^verbatim>\<open>y0_optical += -K / 2 * sep\<close>, then \<^verbatim>\<open>round(y0_optical, 1)\<close>.
\<close>

definition y0_computed :: "'n arith \<Rightarrow> ('n, 'e) args \<Rightarrow> 'n port list \<Rightarrow> error + 'n" where
  "y0_computed A a ps =
     (case getitem (ports (pad_component (pad a))) (port_name a) of
        Inl e \<Rightarrow> Inl e
      | Inr pp \<Rightarrow>
          (let y0 = f_sub A (f_sub A (ymin (component a)) (fanout_length a)) (px pp);
               y1 = f_add A y0
                      (f_mul A (f_div A (f_int A (- int (padded_count ps))) (f_int A 2))
                         (straight_separation a))
           in Inr (f_round1 A y1)))"

text \<open>
  Lines 110 and 111: with a ceiling,
  \<^verbatim>\<open>y0_optical = round(min(max_y0_optical, y0_optical), 1)\<close>.
\<close>

definition y0_optical :: "'n arith \<Rightarrow> ('n, 'e) args \<Rightarrow> 'n port list \<Rightarrow> error + 'n" where
  "y0_optical A a ps =
     (case y0_computed A a ps of
        Inl e \<Rightarrow> Inl e
      | Inr y2 \<Rightarrow>
          Inr (case max_y0_optical a of
                 None \<Rightarrow> y2
               | Some m \<Rightarrow> f_round1 A (py_min A m y2)))"

text \<open>
  Lines 121 to 131: the perimeter walk. The two slices are new lists; \<^verbatim>\<open>reverse()\<close>
  reverses in place, the four lists of the dictionary being distinct objects.
\<close>

definition ordered_ports :: "'n direction_ports \<Rightarrow> 'n port list" where
  "ordered_ports dp =
     (let north_ports = north dp;
          north_start = slice north_ports 0 (length north_ports div 2);
          north_finish = slice_from north_ports (length north_ports div 2);
          west_ports = rev (west dp);
          east_ports = east dp;
          south_ports = south dp;
          north_finish = rev north_finish;
          north_start = rev north_start
      in north_start @ west_ports @ south_ports @ east_ports @ north_finish)"

text \<open>Line 133: \<^verbatim>\<open>nb_ports_per_line = N // n_ports\<close>, Python's floor division.\<close>

definition nb_ports_per_line :: "nat \<Rightarrow> int \<Rightarrow> error + int" where
  "nb_ports_per_line N n = (if n = 0 then Inl ZeroDivisionError else Inr (int N div n))"

text \<open>Lines 141 to 144: the pad slots; \<^verbatim>\<open>range\<close> of a negative number is empty.\<close>

definition pad_slots :: "int list option \<Rightarrow> int \<Rightarrow> error + int list" where
  "pad_slots given nb =
     (case given of
        None \<Rightarrow> Inr (map int [0..<nat nb])
      | Some idx \<Rightarrow> if int (length idx) = nb then Inr idx else Inl AssertionError)"

text \<open>
  Modelled from the spec: \<^verbatim>\<open>Component.ref\<close>, called at line 148 as
  \<^verbatim>\<open>pad.ref(position=(x, y), rotation=..., port_id=...)\<close>, is not part of the source file.
  On the prototype it returns a placed reference that owns the position and the rotation
  given; on a placed reference it does what the collaborator says.
\<close>

fun ref_call ::
  "'n collaborators \<Rightarrow> 'n pad_obj \<Rightarrow> 'n \<Rightarrow> 'n \<Rightarrow> int \<Rightarrow> string \<Rightarrow> error + 'n pad_obj" where
  "ref_call X (Proto c) x y rot pid =
     Inr (Placed \<lparr>parent = c, ref_x = x, ref_y = y, ref_rotation = rot, ref_port_id = pid\<rparr>)"
| "ref_call X (Placed r) x y rot pid = ref_on_reference X r x y rot pid"

text \<open>
  Lines 147 to 154: one round of the comprehension over \<^verbatim>\<open>zip(pad_indices, pads)\<close>;
  \<open>fx i\<close> is the abscissa of slot \<open>i\<close>.
\<close>

fun place_row ::
  "'n collaborators \<Rightarrow> (int \<Rightarrow> 'n) \<Rightarrow> 'n \<Rightarrow> int \<Rightarrow> string \<Rightarrow> (int \<times> 'n pad_obj) list
     \<Rightarrow> 'n event list \<times> (error + 'n pad_obj list)" where
  "place_row X fx y rot pid [] = ([], Inr [])"
| "place_row X fx y rot pid ((i, p) # rest) =
     (case ref_call X p (fx i) y rot pid of
        Inl e \<Rightarrow> ([], Inl e)
      | Inr r \<Rightarrow>
          (case place_row X fx y rot pid rest of
             (tr, Inl e) \<Rightarrow> (Instantiated r # tr, Inl e)
           | (tr, Inr rs) \<Rightarrow> (Instantiated r # tr, Inr (r # rs))))"

text \<open>
  Line 146: \<^verbatim>\<open>for j in range(n_ports)\<close>. Each round rebinds \<^verbatim>\<open>pads\<close>, and the next round
  zips over the list the previous one made.
\<close>

fun place_rows ::
  "'n collaborators \<Rightarrow> (int \<Rightarrow> 'n) \<Rightarrow> (nat \<Rightarrow> 'n) \<Rightarrow> int \<Rightarrow> string \<Rightarrow> int list \<Rightarrow> nat list
     \<Rightarrow> 'n pad_obj list \<Rightarrow> 'n event list \<times> (error + 'n pad_obj list)" where
  "place_rows X fx fy rot pid idx [] pads = ([], Inr pads)"
| "place_rows X fx fy rot pid idx (j # js) pads =
     (case place_row X fx (fy j) rot pid (zip idx pads) of
        (tr, Inl e) \<Rightarrow> (tr, Inl e)
      | (tr, Inr pads') \<Rightarrow>
          (case place_rows X fx fy rot pid idx js pads' of
             (tr', res) \<Rightarrow> (tr @ tr', res)))"

text \<open>Lines 158 and 159: an override that is neither \<^verbatim>\<open>None\<close> nor empty replaces the walk.\<close>

definition override_ports :: "('n, 'e) args \<Rightarrow> 'n port list \<Rightarrow> error + 'n port list" where
  "override_ports a walk =
     (case connected_port_list_ids a of
        None \<Rightarrow> Inr walk
      | Some ids \<Rightarrow> if ids = [] then Inr walk else getitems (ports (component a)) ids)"

text \<open>
  Modelled from the spec: the port mapping of a placed reference is not part of the
  source file. In \<^verbatim>\<open>pads[i].ports[port_name]\<close> (line 163) a reference has the ports of its
  prototype, under the same keys.
\<close>

fun pad_port_of :: "'n pad_obj \<Rightarrow> string \<Rightarrow> error + 'n pad_port" where
  "pad_port_of (Proto c) k =
     (case getitem (ports c) k of Inl e \<Rightarrow> Inl e | Inr _ \<Rightarrow> Inr (PadPort (Proto c) k))"
| "pad_port_of (Placed r) k =
     (case getitem (ports (parent r)) k of Inl e \<Rightarrow> Inl e | Inr _ \<Rightarrow> Inr (PadPort (Placed r) k))"

text \<open>Lines 162 to 166: \<^verbatim>\<open>for i in range(N)\<close>, pairing pad \<open>i\<close> with port \<open>i\<close>.\<close>

fun pair_ports ::
  "('n port \<Rightarrow> 'n pad_port \<Rightarrow> error + 'e list) \<Rightarrow> string \<Rightarrow> 'n pad_obj list
     \<Rightarrow> 'n port list \<Rightarrow> nat list \<Rightarrow> 'n event list \<times> (error + 'e list)" where
  "pair_ports g k pads ordered [] = ([], Inr [])"
| "pair_ports g k pads ordered (i # rest) =
     (if length pads \<le> i then ([], Inl IndexError)
      else (case pad_port_of (pads ! i) k of
        Inl e \<Rightarrow> ([], Inl e)
      | Inr p0 \<Rightarrow>
          (if length ordered \<le> i then ([], Inl IndexError)
           else (case g (ordered ! i) p0 of
             Inl e \<Rightarrow> ([], Inl e)
           | Inr refs \<Rightarrow>
               (case pair_ports g k pads ordered rest of
                  (tr, Inl e) \<Rightarrow> (Routed (ordered ! i) p0 # tr, Inl e)
                | (tr, Inr els) \<Rightarrow> (Routed (ordered ! i) p0 # tr, Inr (refs @ els)))))))"

text \<open>Line 161: \<^verbatim>\<open>for pads in io_pad_lines\<close>.\<close>

fun route_lines ::
  "('n port \<Rightarrow> 'n pad_port \<Rightarrow> error + 'e list) \<Rightarrow> string \<Rightarrow> 'n port list \<Rightarrow> nat
     \<Rightarrow> 'n pad_obj list list \<Rightarrow> 'n event list \<times> (error + 'e list)" where
  "route_lines g k ordered N [] = ([], Inr [])"
| "route_lines g k ordered N (pads # lines) =
     (case pair_ports g k pads ordered [0..<N] of
        (tr, Inl e) \<Rightarrow> (tr, Inl e)
      | (tr, Inr els) \<Rightarrow>
          (case route_lines g k ordered N lines of
             (tr', Inl e) \<Rightarrow> (tr @ tr', Inl e)
           | (tr', Inr els') \<Rightarrow> (tr @ tr', Inr (els @ els'))))"

subsection \<open>The function\<close>

type_synonym ('n, 'e) returned = "'e list \<times> 'n pad_obj list list \<times> 'n number"

text \<open>
  Line 135, \<^verbatim>\<open>y_gap = (K / (n_ports) + 1) * sep\<close>, and line 136,
  \<^verbatim>\<open>y_sep = pad_size_info.height + y_gap + bend_radius\<close>.
\<close>

definition y_sep :: "'n arith \<Rightarrow> ('n, 'e) args \<Rightarrow> 'n port list \<Rightarrow> 'n" where
  "y_sep A a ps =
     (let y_gap = f_mul A
                    (f_add A (f_div A (f_int A (int (padded_count ps))) (f_int A (n_ports a)))
                       (f_int A 1))
                    (straight_separation a)
      in f_add A (f_add A (height (pad_component (pad a))) y_gap) (bend_radius a))"

text \<open>Line 138: \<^verbatim>\<open>offset = (nb_ports_per_line - 1) * io_sep / 2 - x_pad_offset\<close>.\<close>

definition x_offset :: "'n arith \<Rightarrow> ('n, 'e) args \<Rightarrow> int \<Rightarrow> 'n" where
  "x_offset A a nb =
     f_sub A (f_div A (f_mul A (f_int A (nb - 1)) (pad_spacing a)) (f_int A 2))
       (x_pad_offset a)"

text \<open>
  Line 149: the position of the pad of slot \<open>i\<close> in row \<open>j\<close>,
  \<^verbatim>\<open>(x_c - offset + i * io_sep, y0_optical - j * y_sep)\<close>.
\<close>

definition pad_x :: "'n arith \<Rightarrow> ('n, 'e) args \<Rightarrow> 'n port list \<Rightarrow> int \<Rightarrow> int \<Rightarrow> 'n" where
  "pad_x A a ps nb i =
     f_add A (f_sub A (x_center A ps) (x_offset A a nb)) (f_mul A (f_int A i) (pad_spacing a))"

definition pad_y :: "'n arith \<Rightarrow> ('n, 'e) args \<Rightarrow> 'n port list \<Rightarrow> 'n \<Rightarrow> nat \<Rightarrow> 'n" where
  "pad_y A a ps y0 j = f_sub A y0 (f_mul A (f_int A (int j)) (y_sep A a ps))"

text \<open>
  Lines 82 to 168, for the non-empty list \<open>ps\<close> of ports to route. The events of the
  stages are concatenated in the order in which the stages run. The \<^verbatim>\<open>offset\<close> of line 87
  is assigned again at line 138 before it is read, and \<^verbatim>\<open>has_p\<close> is never called: both
  are left out. Line 156 is outside the loop of line 146, so \<^verbatim>\<open>io_pad_lines\<close> holds the
  one row that the last round made (or the list of prototypes when the loop has no round).
\<close>

definition route_selected ::
  "'n arith \<Rightarrow> 'n collaborators \<Rightarrow> ('n, 'e) args \<Rightarrow> 'n port list
     \<Rightarrow> 'n event list \<times> (error + ('n, 'e) returned)" where
  "route_selected A X a ps =
     (let N = length ps;
          padc = pad_component (pad a);
          tr0 = pad_built (pad a);
          pads = replicate N (Proto padc);
          direction_ports = direction_ports_from_list_ports X ps
      in case y0_optical A a ps of
           Inl e \<Rightarrow> (tr0, Inl e)
         | Inr y0 \<Rightarrow>
          (let walk = ordered_ports direction_ports
           in case nb_ports_per_line N (n_ports a) of
                Inl e \<Rightarrow> (tr0, Inl e)
              | Inr nb \<Rightarrow>
               (case pad_slots (pad_indices a) nb of
                  Inl e \<Rightarrow> (tr0, Inl e)
                | Inr idx \<Rightarrow>
                   (case place_rows X (pad_x A a ps nb) (pad_y A a ps y0) (pad_rotation a)
                           (port_name a) idx [0..<nat (n_ports a)] pads of
                      (tr1, Inl e) \<Rightarrow> (tr0 @ tr1, Inl e)
                    | (tr1, Inr pads') \<Rightarrow>
                       (let io_pad_lines = [pads']
                        in case override_ports a walk of
                             Inl e \<Rightarrow> (tr0 @ tr1, Inl e)
                           | Inr ordered \<Rightarrow>
                              (case route_lines (get_route_function a) (port_name a) ordered N
                                      io_pad_lines of
                                 (tr2, Inl e) \<Rightarrow> (tr0 @ tr1 @ tr2, Inl e)
                               | (tr2, Inr elements) \<Rightarrow>
                                   (tr0 @ tr1 @ tr2,
                                    Inr (elements, io_pad_lines, PyFloat y0))))))))"

text \<open>The whole function: lines 71 to 80, then the rest.\<close>

definition route_pad_array ::
  "'n arith \<Rightarrow> 'n collaborators \<Rightarrow> ('n, 'e) args
     \<Rightarrow> 'n event list \<times> (error + ('n, 'e) returned)" where
  "route_pad_array A X a =
     (case selected_ports a of
        Inl e \<Rightarrow> ([], Inl e)
      | Inr ps \<Rightarrow>
          if length ps = 0 then ([], Inr ([], [], PyInt 0)) else route_selected A X a ps)"

subsection \<open>Reading a run\<close>

text \<open>The device ports handed to the route constructor, in the order of the calls.\<close>

fun routed_ports :: "'n event list \<Rightarrow> 'n port list" where
  "routed_ports [] = []"
| "routed_ports (Routed p q # es) = p # routed_ports es"
| "routed_ports (Built c # es) = routed_ports es"
| "routed_ports (Instantiated r # es) = routed_ports es"

text \<open>
  The pad instances made by \<^verbatim>\<open>.ref(...)\<close>, in the order of the calls. The prototype that
  the pad factory returns is not an instance.
\<close>

fun instances :: "'n event list \<Rightarrow> 'n pad_obj list" where
  "instances [] = []"
| "instances (Instantiated r # es) = r # instances es"
| "instances (Built c # es) = instances es"
| "instances (Routed p q # es) = instances es"


subsection \<open>Arithmetic without rounding error\<close>



text \<open>
  The exact arithmetic on the rationals, with rounding to the nearest tenth, a tie going
  to the even multiple. It is not the arithmetic of the interpreter. It serves to run
  the function on the inputs below, where every number that the function computes is a
  binary fraction that a double holds exactly, so that binary floating point computes
  the same numbers.
\<close>

definition round_half_even :: "rat \<Rightarrow> int" where
  "round_half_even q =
     (let f = \<lfloor>q\<rfloor>; d = q - of_int f
      in if d < 1 / 2 then f
         else if 1 / 2 < d then f + 1
         else if even f then f else f + 1)"

definition exact_round1 :: "rat \<Rightarrow> rat" where
  "exact_round1 q = of_int (round_half_even (q * 10)) / 10"

definition exact :: "rat arith" where
  "exact =
     \<lparr>f_add = (+), f_sub = (-), f_mul = (*), f_div = (/), f_less = (<),
      f_round1 = exact_round1, f_int = of_int\<rparr>"

subsection \<open>A device to run the function on\<close>

definition port_at :: "string \<Rightarrow> rat \<Rightarrow> rat port" where
  "port_at n v = \<lparr>pname = n, px = v, py = 0\<rparr>"

definition demo_pad :: "rat component" where
  "demo_pad = \<lparr>ports = [(''W'', port_at ''W'' 0)], ymin = 0, height = 100\<rparr>"

definition demo_ports :: "rat port list" where
  "demo_ports =
     [port_at ''N0'' (- 20), port_at ''N1'' 20, port_at ''W0'' (- 30), port_at ''S0'' 0,
      port_at ''E0'' 30]"

definition demo_device :: "rat component" where
  "demo_device = \<lparr>ports = map (\<lambda>p. (pname p, p)) demo_ports, ymin = 100, height = 0\<rparr>"

text \<open>
  A bucketing by the first letter of the port name, and a \<^verbatim>\<open>.ref\<close> that also works on a
  placed reference (it places the same prototype again).
\<close>

definition demo_collaborators :: "rat collaborators" where
  "demo_collaborators =
     \<lparr>direction_ports_from_list_ports =
        (\<lambda>ps. \<lparr>north = filter (\<lambda>p. take 1 (pname p) = ''N'') ps,
               south = filter (\<lambda>p. take 1 (pname p) = ''S'') ps,
               east = filter (\<lambda>p. take 1 (pname p) = ''E'') ps,
               west = filter (\<lambda>p. take 1 (pname p) = ''W'') ps\<rparr>),
      ref_on_reference =
        (\<lambda>r x y rot pid.
           Inr (Placed \<lparr>parent = parent r, ref_x = x, ref_y = y, ref_rotation = rot,
                  ref_port_id = pid\<rparr>))\<rparr>"

text \<open>
  The default arguments of the signature, but for the bend radius, one half instead of
  one tenth, which no double holds exactly. A route is represented by the name of its
  port.
\<close>

definition demo_args :: "(rat, string) args" where
  "demo_args =
     \<lparr>component = demo_device, pad_spacing = 150, pad = PadFactory demo_pad,
      fanout_length = 20, max_y0_optical = None, straight_separation = 4,
      bend_radius = 1 / 2, connected_port_list_ids = None, n_ports = 1,
      excluded_ports = None, pad_indices = None,
      get_route_function = (\<lambda>p q. Inr [pname p]), port_name = ''W'', pad_rotation = - 90,
      x_pad_offset = 0, port_labels = None, select_ports = (\<lambda>d. d)\<rparr>"

section \<open>Properties\<close>

subsection \<open>The loops and the primitives\<close>

lemma routed_ports_append: "routed_ports (xs @ ys) = routed_ports xs @ routed_ports ys"
  by (induction xs rule: routed_ports.induct) simp_all

lemma instances_append: "instances (xs @ ys) = instances xs @ instances ys"
  by (induction xs rule: instances.induct) simp_all

lemma pad_built_quiet: "routed_ports (pad_built p) = [] \<and> instances (pad_built p) = []"
  by (cases p) simp_all

lemma place_row_length:
  "place_row X fx y rot pid zs = (tr, Inr rs) \<Longrightarrow> length rs = length zs"
proof (induction zs arbitrary: tr rs)
  case Nil
  then show ?case by simp
next
  case (Cons z zs)
  obtain i p where z: "z = (i, p)" by (cases z)
  from Cons.prems show ?case
    by (auto simp: z split: sum.splits prod.splits dest: Cons.IH)
qed

lemma place_row_events:
  "place_row X fx y rot pid zs = (tr, res) \<Longrightarrow> routed_ports tr = []"
proof (induction zs arbitrary: tr res)
  case Nil
  then show ?case by simp
next
  case (Cons z zs)
  obtain i p where z: "z = (i, p)" by (cases z)
  from Cons.prems show ?case
    by (auto simp: z split: sum.splits prod.splits dest: Cons.IH)
qed

lemma place_row_proto:
  "place_row X fx y rot pid (zip idx (replicate n (Proto c))) =
     (map Instantiated
        (map (\<lambda>i. Placed \<lparr>parent = c, ref_x = fx i, ref_y = y, ref_rotation = rot,
                 ref_port_id = pid\<rparr>) (take n idx)),
      Inr (map (\<lambda>i. Placed \<lparr>parent = c, ref_x = fx i, ref_y = y, ref_rotation = rot,
                 ref_port_id = pid\<rparr>) (take n idx)))"
proof (induction idx arbitrary: n)
  case Nil
  then show ?case by simp
next
  case (Cons i idx)
  show ?case
  proof (cases n)
    case 0
    then show ?thesis by simp
  next
    case (Suc m)
    then show ?thesis using Cons.IH [of m] by simp
  qed
qed

lemma place_rows_events:
  "place_rows X fx fy rot pid idx js pads = (tr, res) \<Longrightarrow> routed_ports tr = []"
proof (induction js arbitrary: pads tr res)
  case Nil
  then show ?case by simp
next
  case (Cons j js)
  from Cons.prems show ?case
    by (auto simp: routed_ports_append split: sum.splits prod.splits
        dest: Cons.IH place_row_events)
qed

lemma place_rows_length:
  "place_rows X fx fy rot pid idx js pads = (tr, Inr pads') \<Longrightarrow> js \<noteq> [] \<Longrightarrow>
     length pads' \<le> length idx"
proof (induction js arbitrary: pads tr pads')
  case Nil
  then show ?case by simp
next
  case (Cons j js)
  from Cons.prems(1) obtain t1 row t2 where
    row: "place_row X fx (fy j) rot pid (zip idx pads) = (t1, Inr row)" and
    rest: "place_rows X fx fy rot pid idx js row = (t2, Inr pads')"
    by (auto split: sum.splits prod.splits)
  have len: "length row \<le> length idx"
    using place_row_length [OF row] by simp
  show ?case
  proof (cases js)
    case Nil
    with rest len show ?thesis by simp
  next
    case (Cons k ks)
    then show ?thesis using Cons.IH [OF rest] \<open>js = k # ks\<close> by simp
  qed
qed

lemma pair_ports_bounds:
  "pair_ports g k pads ordered js = (tr, Inr els) \<Longrightarrow> i \<in> set js \<Longrightarrow>
     i < length pads \<and> i < length ordered"
proof (induction js arbitrary: tr els)
  case Nil
  then show ?case by simp
next
  case (Cons j js)
  from Cons.prems show ?case
    by (auto split: if_splits sum.splits prod.splits dest: Cons.IH)
qed

lemma pair_ports_routed:
  "pair_ports g k pads ordered js = (tr, Inr els) \<Longrightarrow>
     routed_ports tr = map (\<lambda>i. ordered ! i) js \<and> instances tr = []"
proof (induction js arbitrary: tr els)
  case Nil
  then show ?case by simp
next
  case (Cons j js)
  from Cons.prems show ?case
    by (auto split: if_splits sum.splits prod.splits dest: Cons.IH)
qed

lemma pair_ports_quiet:
  "pair_ports g k pads ordered js = (tr, res) \<Longrightarrow> instances tr = []"
proof (induction js arbitrary: tr res)
  case Nil
  then show ?case by simp
next
  case (Cons j js)
  from Cons.prems show ?case
    by (auto split: if_splits sum.splits prod.splits dest: Cons.IH)
qed

lemma route_lines_single:
  "route_lines g k ordered N [pads] = pair_ports g k pads ordered [0..<N]"
  by (simp split: prod.splits sum.splits)


lemma ordered_ports_eq:
  "ordered_ports dp =
     rev (take (length (north dp) div 2) (north dp)) @ rev (west dp) @ south dp @ east dp
       @ rev (drop (length (north dp) div 2) (north dp))"
  by (simp add: ordered_ports_def slice_def slice_from_def Let_def)

lemma mset_halves: "mset (take n xs) + mset (drop n xs) = mset xs"
  by (metis append_take_drop_id mset_append)


lemma take_nths: "n \<le> length xs \<Longrightarrow> map (\<lambda>i. xs ! i) [0..<n] = take n xs"
  by (simp add: list_eq_iff_nth_eq)

lemma instances_map_comp: "instances (map (Instantiated \<circ> f) xs) = map f xs"
  by (induction xs) simp_all

lemma upt_two: "[0..<2] = [0, Suc 0]"
  by (simp add: numeral_2_eq_2)

subsection \<open>The exact arithmetic\<close>

lemma exact_round1_of_int: "exact_round1 (of_int k) = of_int k"
  by (simp add: exact_round1_def round_half_even_def)

lemma exact_round1_numeral: "exact_round1 (numeral n) = numeral n"
  using exact_round1_of_int [of "numeral n"] by simp

lemma exact_round1_zero: "exact_round1 0 = 0"
  using exact_round1_of_int [of 0] by simp

lemma floor_rat_numeral: "\<lfloor>numeral a / numeral b :: rat\<rfloor> = numeral a div numeral b"
  by (metis floor_divide_of_int_eq of_int_numeral)

lemma exact_round1_example: "exact_round1 (335 / 32) = 21 / 2"
  by (simp add: exact_round1_def round_half_even_def floor_rat_numeral)


subsection \<open>Arguments that a stage does not read\<close>

lemma selected_ports_ids:
  "selected_ports (a\<lparr>connected_port_list_ids := v\<rparr>) = selected_ports a"
  by (simp add: selected_ports_def cong: option.case_cong sum.case_cong)

lemma selected_ports_slots:
  "selected_ports (a\<lparr>pad_indices := v\<rparr>) = selected_ports a"
  by (simp add: selected_ports_def cong: option.case_cong sum.case_cong)

lemma y0_optical_ids:
  "y0_optical A (a\<lparr>connected_port_list_ids := v\<rparr>) ps = y0_optical A a ps"
  by (simp add: y0_optical_def y0_computed_def cong: option.case_cong sum.case_cong)

lemma y0_optical_slots:
  "y0_optical A (a\<lparr>pad_indices := v\<rparr>) ps = y0_optical A a ps"
  by (simp add: y0_optical_def y0_computed_def cong: option.case_cong sum.case_cong)

lemma pad_x_ids: "pad_x A (a\<lparr>connected_port_list_ids := v\<rparr>) ps nb = pad_x A a ps nb"
  by (simp add: pad_x_def x_offset_def fun_eq_iff)

lemma pad_y_ids: "pad_y A (a\<lparr>connected_port_list_ids := v\<rparr>) ps y0 = pad_y A a ps y0"
  by (simp add: pad_y_def y_sep_def fun_eq_iff)

lemma pad_x_slots: "pad_x A (a\<lparr>pad_indices := v\<rparr>) ps nb = pad_x A a ps nb"
  by (simp add: pad_x_def x_offset_def fun_eq_iff)

lemma pad_y_slots: "pad_y A (a\<lparr>pad_indices := v\<rparr>) ps y0 = pad_y A a ps y0"
  by (simp add: pad_y_def y_sep_def fun_eq_iff)

lemma override_ports_slots:
  "override_ports (a\<lparr>pad_indices := v\<rparr>) walk = override_ports a walk"
  by (simp add: override_ports_def split: option.splits)

lemma override_ports_empty:
  "override_ports (a\<lparr>connected_port_list_ids := Some []\<rparr>) walk
     = override_ports (a\<lparr>connected_port_list_ids := None\<rparr>) walk"
  by (simp add: override_ports_def)

lemma route_selected_empty_override:
  "route_selected A X (a\<lparr>connected_port_list_ids := Some []\<rparr>) ps
     = route_selected A X (a\<lparr>connected_port_list_ids := None\<rparr>) ps"
  by (simp add: route_selected_def y0_optical_ids override_ports_empty pad_x_ids pad_y_ids
      cong: sum.case_cong prod.case_cong)

subsection \<open>The shape of a call that returns\<close>

lemma route_selected_success:
  assumes "route_selected A X a ps = (tr, Inr (els, rows, y))"
  obtains y0 nb idx tr1 pads' ordered tr2 where
    "y = PyFloat y0"
    "y0_optical A a ps = Inr y0"
    "nb_ports_per_line (length ps) (n_ports a) = Inr nb"
    "pad_slots (pad_indices a) nb = Inr idx"
    "place_rows X (pad_x A a ps nb) (pad_y A a ps y0) (pad_rotation a) (port_name a) idx
       [0..<nat (n_ports a)] (replicate (length ps) (Proto (pad_component (pad a))))
       = (tr1, Inr pads')"
    "override_ports a (ordered_ports (direction_ports_from_list_ports X ps)) = Inr ordered"
    "pair_ports (get_route_function a) (port_name a) pads' ordered [0..<length ps] = (tr2, Inr els)"
    "rows = [pads']"
    "tr = pad_built (pad a) @ tr1 @ tr2"
  using assms unfolding route_selected_def Let_def route_lines_single
  by (auto split: sum.splits prod.splits)

lemma route_pad_array_success:
  assumes "route_pad_array A X a = (tr, Inr res)" "selected_ports a = Inr ps" "ps \<noteq> []"
  shows "route_selected A X a ps = (tr, Inr res)"
  using assms by (simp add: route_pad_array_def)

subsection \<open>Running the function on the device\<close>

lemmas demo_defs =
  demo_args_def demo_collaborators_def demo_device_def demo_ports_def demo_pad_def port_at_def

lemma demo_selected: "selected_ports demo_args = Inr demo_ports"
  by (simp add: demo_defs selected_ports_def)

lemmas eval_defs =
  route_pad_array_def route_selected_def selected_ports_def y0_optical_def y0_computed_def
  getitem_def x_center_def padded_count_def ordered_ports_def nb_ports_per_line_def
  pad_slots_def override_ports_def slice_def slice_from_def Let_def py_sum_def py_min_def
  y_sep_def x_offset_def pad_x_def pad_y_def exact_def exact_round1_numeral
  exact_round1_zero exact_round1_example upt_two

lemma demo_run:
  "snd (route_pad_array exact demo_collaborators demo_args) =
     Inr ([''N0'', ''W0'', ''S0'', ''E0'', ''N1''],
          [map (\<lambda>x. Placed \<lparr>parent = demo_pad, ref_x = x, ref_y = 68, ref_rotation = - 90,
                         ref_port_id = ''W''\<rparr>) [- 300, - 150, 0, 150, 300]],
          PyFloat 68)"
  by (simp add: demo_defs eval_defs)

lemma demo_two_rows:
  "snd (route_pad_array exact demo_collaborators (demo_args\<lparr>n_ports := 2\<rparr>)) = Inl IndexError"
  by (simp add: demo_defs eval_defs)

lemma demo_two_rows_routed:
  "routed_ports (fst (route_pad_array exact demo_collaborators (demo_args\<lparr>n_ports := 2\<rparr>))) =
     [port_at ''N0'' (- 20), port_at ''W0'' (- 30)]"
  by (simp add: demo_defs eval_defs)

lemma demo_bad_id:
  "route_pad_array exact demo_collaborators
          (demo_args\<lparr>connected_port_list_ids := Some [''zz'']\<rparr>)
     = (Built demo_pad #
        map (\<lambda>x. Instantiated (Placed \<lparr>parent = demo_pad, ref_x = x, ref_y = 68,
                    ref_rotation = - 90, ref_port_id = ''W''\<rparr>)) [- 300, - 150, 0, 150, 300],
        Inl KeyError)"
  by (simp add: demo_defs eval_defs)

lemma demo_ceiling:
  "snd (route_pad_array exact demo_collaborators
          (demo_args\<lparr>max_y0_optical := Some (335 / 32)\<rparr>)) =
     Inr ([''N0'', ''W0'', ''S0'', ''E0'', ''N1''],
          [map (\<lambda>x. Placed \<lparr>parent = demo_pad, ref_x = x, ref_y = 21 / 2, ref_rotation = - 90,
                         ref_port_id = ''W''\<rparr>) [- 300, - 150, 0, 150, 300]],
          PyFloat (21 / 2))"
  by (simp add: demo_defs eval_defs)


lemma demo_zero_rows:
  "route_pad_array exact demo_collaborators (demo_args\<lparr>n_ports := 0\<rparr>) =
     ([Built demo_pad], Inl ZeroDivisionError)"
  by (simp add: demo_defs eval_defs)

subsection \<open>The empty selection\<close>

text \<open>
  Claim C5. When the list of ports is empty after selection and exclusion, the function
  returns the empty list of routes, the empty list of pad rows and the ordinate 0; it
  raises nothing and creates nothing.
\<close>

theorem empty_selection_returns_empty:
  "selected_ports a = Inr [] \<Longrightarrow> route_pad_array A X a = ([], Inr ([], [], PyInt 0))"
  by (simp add: route_pad_array_def)

theorem empty_selection_returns_empty_witness:
  "selected_ports (demo_args\<lparr>port_labels := Some []\<rparr>) = Inr []
   \<and> route_pad_array exact demo_collaborators (demo_args\<lparr>port_labels := Some []\<rparr>)
       = ([], Inr ([], [], PyInt 0))"
proof -
  have h: "selected_ports (demo_args\<lparr>port_labels := Some []\<rparr>) = Inr []"
    by (simp add: selected_ports_def demo_args_def)
  show ?thesis
    using h empty_selection_returns_empty [OF h, of exact demo_collaborators] by simp
qed

subsection \<open>The empty override\<close>

text \<open>
  Claim C10. An empty list \<^verbatim>\<open>connected_port_list_ids\<close> does not replace the walk: the call
  behaves exactly as with \<^verbatim>\<open>None\<close>, in its result and in what it creates.
\<close>

theorem empty_override_is_no_override:
  "route_pad_array A X (a\<lparr>connected_port_list_ids := Some []\<rparr>)
     = route_pad_array A X (a\<lparr>connected_port_list_ids := None\<rparr>)"
  by (simp add: route_pad_array_def selected_ports_ids route_selected_empty_override
      split: sum.splits)

subsection \<open>The padding factor\<close>

lemma routed_count:
  assumes "selected_ports a = Inr ps" and "route_pad_array A X a = (tr, Inr res)"
  shows "length (routed_ports tr) = length ps"
proof (cases "ps = []")
  case True
  with assms show ?thesis by (simp add: route_pad_array_def)
next
  case False
  obtain els rows y where res: "res = (els, rows, y)" by (cases res)
  from route_pad_array_success [OF assms(2) assms(1) False]
  have "route_selected A X a ps = (tr, Inr (els, rows, y))" by (simp add: res)
  then obtain tr1 pads' ordered tr2 nb idx fx fy where
    rows: "place_rows X fx fy (pad_rotation a) (port_name a) idx [0..<nat (n_ports a)]
       (replicate (length ps) (Proto (pad_component (pad a)))) = (tr1, Inr pads')" and
    pairs: "pair_ports (get_route_function a) (port_name a) pads' ordered [0..<length ps]
       = (tr2, Inr els)" and
    tr: "tr = pad_built (pad a) @ tr1 @ tr2"
    by (rule route_selected_success)
  show ?thesis
    using pair_ports_routed [OF pairs] place_rows_events [OF rows] pad_built_quiet [of "pad a"]
    by (simp add: tr routed_ports_append)
qed

text \<open>
  Claim C8. The padding factor \<open>K\<close> is even: it is the number of ports plus one when
  that number is odd, and the number of ports when it is even. It is used for the vertical
  gap only: a call that returns has constructed exactly one route per port, not \<open>K\<close>.
\<close>

theorem padding_factor_even:
  "even (padded_count ps)
   \<and> padded_count ps = (if odd (length ps) then length ps + 1 else length ps)
   \<and> (selected_ports a = Inr ps \<and> route_pad_array A X a = (tr, Inr res)
        \<longrightarrow> length (routed_ports tr) = length ps)"
  using routed_count [of a ps A X tr res]
  by (auto simp: padded_count_def Let_def odd_iff_mod_2_eq_one)

theorem padding_factor_even_witness:
  "even (padded_count demo_ports) \<and> padded_count demo_ports = 6 \<and> length demo_ports = 5
   \<and> selected_ports demo_args = Inr demo_ports
   \<and> \<not> isl (snd (route_pad_array exact demo_collaborators demo_args))
   \<and> length (routed_ports (fst (route_pad_array exact demo_collaborators demo_args))) = 5"
proof -
  obtain tr res where run: "route_pad_array exact demo_collaborators demo_args = (tr, Inr res)"
    using demo_run by (cases "route_pad_array exact demo_collaborators demo_args") auto
  have len: "length demo_ports = 5" by (simp add: demo_ports_def)
  from padding_factor_even [of demo_ports demo_args exact demo_collaborators tr res]
  show ?thesis using run demo_selected len by simp
qed

subsection \<open>More than one row\<close>

lemma pad_slots_length:
  "pad_slots given nb = Inr idx \<Longrightarrow> 0 \<le> nb \<Longrightarrow> int (length idx) = nb"
  by (auto simp: pad_slots_def split: option.splits if_splits)

lemma rows_shorter:
  assumes "1 < n" and "0 < N"
  shows "int N div n < int N"
  using assms by (simp add: int_div_less_self)

lemma multi_row_fails:
  assumes ne: "ps \<noteq> []" and rows: "1 < n_ports a"
  shows "\<exists>e. snd (route_selected A X a ps) = Inl e"
proof (rule ccontr)
  assume "\<not> ?thesis"
  then obtain tr res where run: "route_selected A X a ps = (tr, Inr res)"
    by (cases "route_selected A X a ps"; cases "snd (route_selected A X a ps)") auto
  obtain els rws y where res: "res = (els, rws, y)" by (cases res)
  from run obtain nb idx tr1 pads' ordered tr2 fx fy where
    nb: "nb_ports_per_line (length ps) (n_ports a) = Inr nb" and
    idx: "pad_slots (pad_indices a) nb = Inr idx" and
    placed: "place_rows X fx fy (pad_rotation a) (port_name a) idx [0..<nat (n_ports a)]
       (replicate (length ps) (Proto (pad_component (pad a)))) = (tr1, Inr pads')" and
    pairs: "pair_ports (get_route_function a) (port_name a) pads' ordered [0..<length ps]
       = (tr2, Inr els)"
    unfolding res by (rule route_selected_success)
  have N: "0 < length ps" using ne by simp
  from nb rows have nb_eq: "nb = int (length ps) div n_ports a"
    by (simp add: nb_ports_per_line_def split: if_splits)
  have nb_lt: "nb < int (length ps)"
    unfolding nb_eq using rows N by (rule rows_shorter)
  have nb_ge: "0 \<le> nb"
    unfolding nb_eq using rows by (simp add: pos_imp_zdiv_nonneg_iff)
  have len_idx: "int (length idx) = nb"
    using idx nb_ge by (rule pad_slots_length)
  have "[0..<nat (n_ports a)] \<noteq> []" using rows by simp
  with placed have "length pads' \<le> length idx" by (rule place_rows_length)
  with len_idx nb_lt have short: "length pads' < length ps" by linarith
  have "length ps - 1 \<in> set [0..<length ps]" using N by simp
  with pairs have "length ps - 1 < length pads'" by (auto dest: pair_ports_bounds)
  with short show False by linarith
qed

text \<open>
  Claim C3. With more than one row the call is to succeed, the ports beyond
  \<open>N // n_rows\<close> being left out of the pairing. The code does not do so: whenever the row
  count exceeds one and the list of ports is not empty, whether or not the row count
  divides the number of ports, the call raises. The pairing loop of line 162 runs over
  all \<open>N\<close> ports and indexes a row that holds at most \<open>N // n_rows\<close> pads.
\<close>

theorem multi_row_call_raises:
  assumes "selected_ports a = Inr ps" and "ps \<noteq> []" and "1 < n_ports a"
  shows "\<exists>e. snd (route_pad_array A X a) = Inl e"
  using assms multi_row_fails [of ps a A X] by (simp add: route_pad_array_def)

theorem multi_row_call_raises_witness:
  "selected_ports (demo_args\<lparr>n_ports := 2\<rparr>) = Inr demo_ports \<and> demo_ports \<noteq> []
   \<and> 1 < n_ports (demo_args\<lparr>n_ports := 2\<rparr>) \<and> \<not> 2 dvd length demo_ports
   \<and> snd (route_pad_array exact demo_collaborators (demo_args\<lparr>n_ports := 2\<rparr>)) = Inl IndexError
   \<and> routed_ports (fst (route_pad_array exact demo_collaborators (demo_args\<lparr>n_ports := 2\<rparr>)))
       = [port_at ''N0'' (- 20), port_at ''W0'' (- 30)]"
proof -
  have sel: "selected_ports (demo_args\<lparr>n_ports := 2\<rparr>) = Inr demo_ports"
    by (simp add: demo_defs selected_ports_def)
  have ne: "demo_ports \<noteq> []" by (simp add: demo_ports_def)
  have rows: "1 < n_ports (demo_args\<lparr>n_ports := 2\<rparr>)" by simp
  have odd: "\<not> 2 dvd length demo_ports" by (simp add: demo_ports_def)
  from multi_row_call_raises [OF sel ne rows, of exact demo_collaborators]
  show ?thesis using sel ne odd demo_two_rows demo_two_rows_routed by simp
qed

subsection \<open>The perimeter walk\<close>

lemma override_ports_none:
  "connected_port_list_ids a \<in> {None, Some []} \<Longrightarrow> override_ports a walk = Inr walk"
  by (auto simp: override_ports_def)

lemma routed_are_walk:
  assumes sel: "selected_ports a = Inr ps" and ne: "ps \<noteq> []"
    and run: "route_pad_array A X a = (tr, Inr res)"
    and ord: "override_ports a (ordered_ports (direction_ports_from_list_ports X ps)) = Inr walk"
  shows "routed_ports tr = take (length ps) walk"
proof -
  obtain els rws y where res: "res = (els, rws, y)" by (cases res)
  from route_pad_array_success [OF run sel ne]
  have "route_selected A X a ps = (tr, Inr (els, rws, y))" by (simp add: res)
  then obtain tr1 pads' ordered tr2 nb idx fx fy where
    placed: "place_rows X fx fy (pad_rotation a) (port_name a) idx [0..<nat (n_ports a)]
       (replicate (length ps) (Proto (pad_component (pad a)))) = (tr1, Inr pads')" and
    ordered: "override_ports a (ordered_ports (direction_ports_from_list_ports X ps))
       = Inr ordered" and
    pairs: "pair_ports (get_route_function a) (port_name a) pads' ordered [0..<length ps]
       = (tr2, Inr els)" and
    tr: "tr = pad_built (pad a) @ tr1 @ tr2"
    by (rule route_selected_success)
  from ord ordered have same: "ordered = walk" by simp
  have "length ps \<le> length ordered"
  proof -
    have "length ps - 1 \<in> set [0..<length ps]" using ne by simp
    with pairs have "length ps - 1 < length ordered" by (auto dest: pair_ports_bounds)
    then show ?thesis by linarith
  qed
  then have "map (\<lambda>i. ordered ! i) [0..<length ps] = take (length ps) ordered"
    by (rule take_nths)
  then show ?thesis
    using pair_ports_routed [OF pairs] place_rows_events [OF placed]
      pad_built_quiet [of "pad a"]
    by (simp add: tr routed_ports_append same)
qed

text \<open>
  Claim C1. For a non-empty list of ports and no override of the connection ids, the
  sequence of ports used for the pairing is \<open>north_start @ west @ south @ east @
  north_finish\<close>: the first \<open>len div 2\<close> north ports reversed, the west ports reversed, the
  south and east ports as they come, the remaining north ports reversed. Every port of a
  bucket occurs in it exactly as often as in the buckets, none dropped or doubled. In a
  call that returns, the route constructor has received the first \<open>N\<close> ports of this
  sequence, in this order.
\<close>

theorem perimeter_walk:
  assumes "selected_ports a = Inr ps" and "ps \<noteq> []"
    and "connected_port_list_ids a \<in> {None, Some []}"
    and "dp = direction_ports_from_list_ports X ps"
    and "walk = rev (take (length (north dp) div 2) (north dp)) @ rev (west dp) @ south dp
           @ east dp @ rev (drop (length (north dp) div 2) (north dp))"
  shows "override_ports a (ordered_ports dp) = Inr walk
    \<and> mset walk = mset (north dp) + mset (west dp) + mset (south dp) + mset (east dp)
    \<and> (\<forall>tr res. route_pad_array A X a = (tr, Inr res)
          \<longrightarrow> routed_ports tr = take (length ps) walk)"
proof -
  have walk: "ordered_ports dp = walk"
    using assms(5) by (simp add: ordered_ports_eq)
  have final: "override_ports a (ordered_ports dp) = Inr walk"
    using override_ports_none [OF assms(3)] walk by simp
  have "mset walk = (mset (take (length (north dp) div 2) (north dp))
      + mset (drop (length (north dp) div 2) (north dp)))
      + mset (west dp) + mset (south dp) + mset (east dp)"
    unfolding assms(5) by simp
  then have perm: "mset walk = mset (north dp) + mset (west dp) + mset (south dp) + mset (east dp)"
    by (simp only: mset_halves)
  have "routed_ports tr = take (length ps) walk"
    if "route_pad_array A X a = (tr, Inr res)" for tr res
    using assms(1,2) that final unfolding assms(4) by (rule routed_are_walk)
  with final perm show ?thesis by blast
qed

theorem perimeter_walk_witness:
  "selected_ports demo_args = Inr demo_ports \<and> demo_ports \<noteq> []
   \<and> connected_port_list_ids demo_args \<in> {None, Some []}
   \<and> override_ports demo_args
        (ordered_ports (direction_ports_from_list_ports demo_collaborators demo_ports))
      = Inr [port_at ''N0'' (- 20), port_at ''W0'' (- 30), port_at ''S0'' 0,
             port_at ''E0'' 30, port_at ''N1'' 20]
   \<and> \<not> isl (snd (route_pad_array exact demo_collaborators demo_args))
   \<and> routed_ports (fst (route_pad_array exact demo_collaborators demo_args))
      = [port_at ''N0'' (- 20), port_at ''W0'' (- 30), port_at ''S0'' 0,
         port_at ''E0'' 30, port_at ''N1'' 20]"
proof -
  define dp where "dp = direction_ports_from_list_ports demo_collaborators demo_ports"
  define walk where "walk = rev (take (length (north dp) div 2) (north dp)) @ rev (west dp)
     @ south dp @ east dp @ rev (drop (length (north dp) div 2) (north dp))"
  have ne: "demo_ports \<noteq> []" by (simp add: demo_ports_def)
  have ids: "connected_port_list_ids demo_args \<in> {None, Some []}"
    by (simp add: demo_args_def)
  have walk_is: "walk = [port_at ''N0'' (- 20), port_at ''W0'' (- 30), port_at ''S0'' 0,
      port_at ''E0'' 30, port_at ''N1'' 20]"
    by (simp add: walk_def dp_def demo_collaborators_def demo_ports_def port_at_def)
  obtain tr res where run: "route_pad_array exact demo_collaborators demo_args = (tr, Inr res)"
    using demo_run by (cases "route_pad_array exact demo_collaborators demo_args") auto
  from perimeter_walk [OF demo_selected ne ids dp_def walk_def]
  have "override_ports demo_args (ordered_ports dp) = Inr walk"
    and "routed_ports tr = take (length demo_ports) walk"
    using run by blast+
  then show ?thesis
    using demo_selected ne ids run by (simp add: walk_is dp_def demo_ports_def)
qed

subsection \<open>The identity slots\<close>

lemma pad_slots_identity:
  "0 \<le> nb \<Longrightarrow> pad_slots (Some (map int [0..<nat nb])) nb = pad_slots None nb"
  by (simp add: pad_slots_def)

lemma route_selected_identity:
  assumes "0 \<le> n_ports a"
  shows "route_selected A X
           (a\<lparr>pad_indices := Some (map int [0..<nat (int (length ps) div n_ports a)])\<rparr>) ps
         = route_selected A X (a\<lparr>pad_indices := None\<rparr>) ps"
proof -
  have nb: "0 \<le> int (length ps) div n_ports a"
    using assms by (simp add: pos_imp_zdiv_nonneg_iff div_int_pos_iff)
  show ?thesis
    unfolding route_selected_def Let_def y0_optical_slots pad_x_slots pad_y_slots override_ports_slots
    by (simp add: nb_ports_per_line_def pad_slots_identity [OF nb]
        cong: sum.case_cong)
qed

text \<open>
  Claim C9, as amended. When the row count is not negative, passing as \<^verbatim>\<open>pad_indices\<close> the
  identity sequence \<open>0, ..., N // n_rows - 1\<close> gives exactly the run that omitting
  \<^verbatim>\<open>pad_indices\<close> gives: the same result or the same exception, and the same objects
  created.
\<close>

theorem identity_pad_indices:
  assumes "selected_ports a = Inr ps" and "0 \<le> n_ports a"
  shows "route_pad_array A X
           (a\<lparr>pad_indices := Some (map int [0..<nat (int (length ps) div n_ports a)])\<rparr>)
         = route_pad_array A X (a\<lparr>pad_indices := None\<rparr>)"
  using assms
  by (simp add: route_pad_array_def selected_ports_slots route_selected_identity)

theorem identity_pad_indices_witness:
  "selected_ports demo_args = Inr demo_ports \<and> 0 \<le> n_ports demo_args
   \<and> map int [0..<nat (int (length demo_ports) div n_ports demo_args)] = [0, 1, 2, 3, 4]
   \<and> route_pad_array exact demo_collaborators (demo_args\<lparr>pad_indices := Some [0, 1, 2, 3, 4]\<rparr>)
      = route_pad_array exact demo_collaborators (demo_args\<lparr>pad_indices := None\<rparr>)
   \<and> \<not> isl (snd (route_pad_array exact demo_collaborators
                 (demo_args\<lparr>pad_indices := Some [0, 1, 2, 3, 4]\<rparr>)))"
proof -
  have n: "0 \<le> n_ports demo_args" by (simp add: demo_args_def)
  have ident: "map int [0..<nat (int (length demo_ports) div n_ports demo_args)]
      = [0, 1, 2, 3, 4]"
    by (simp add: demo_args_def demo_ports_def eval_nat_numeral)
  have ok: "\<not> isl (snd (route_pad_array exact demo_collaborators
                 (demo_args\<lparr>pad_indices := Some [0, 1, 2, 3, 4]\<rparr>)))"
    by (simp add: demo_defs eval_defs)
  from identity_pad_indices [OF demo_selected n, of exact demo_collaborators]
  show ?thesis using demo_selected n ident ok by simp
qed

text \<open>
  Claim C9 as stated fails for a negative row count: with 5 ports and \<^verbatim>\<open>n_ports = -1\<close> the
  slot count \<open>5 // -1\<close> is -5, the identity sequence is empty, and the assertion of line
  144 compares its length 0 with -5 and fails, while the call without \<^verbatim>\<open>pad_indices\<close>
  returns.
\<close>

theorem identity_pad_indices_counterexample:
  "snd (route_pad_array exact demo_collaborators
     (demo_args\<lparr>n_ports := - 1,
        pad_indices := Some (map int [0..<nat (int (length demo_ports) div - 1)])\<rparr>))
     = Inl AssertionError
   \<and> snd (route_pad_array exact demo_collaborators (demo_args\<lparr>n_ports := - 1, pad_indices := None\<rparr>))
     = Inr ([''N0'', ''W0'', ''S0'', ''E0'', ''N1''],
            [[Proto demo_pad, Proto demo_pad, Proto demo_pad, Proto demo_pad, Proto demo_pad]],
            PyFloat 68)
   \<and> route_pad_array exact demo_collaborators
     (demo_args\<lparr>n_ports := - 1,
        pad_indices := Some (map int [0..<nat (int (length demo_ports) div - 1)])\<rparr>)
     \<noteq> route_pad_array exact demo_collaborators (demo_args\<lparr>n_ports := - 1, pad_indices := None\<rparr>)"
proof -
  have explicit: "snd (route_pad_array exact demo_collaborators
     (demo_args\<lparr>n_ports := - 1,
        pad_indices := Some (map int [0..<nat (int (length demo_ports) div - 1)])\<rparr>))
     = Inl AssertionError"
    by (simp add: demo_defs eval_defs)
  have omitted: "snd (route_pad_array exact demo_collaborators
      (demo_args\<lparr>n_ports := - 1, pad_indices := None\<rparr>))
     = Inr ([''N0'', ''W0'', ''S0'', ''E0'', ''N1''],
            [[Proto demo_pad, Proto demo_pad, Proto demo_pad, Proto demo_pad, Proto demo_pad]],
            PyFloat 68)"
    by (simp add: demo_defs eval_defs)
  from explicit omitted show ?thesis by (metis sum.distinct(1))
qed

subsection \<open>The check of the pad slots\<close>

lemma early_failure:
  assumes "isl (getitem (ports (pad_component (pad a))) (port_name a)) \<or> n_ports a = 0
     \<or> (\<exists>idx. pad_indices a = Some idx
           \<and> int (length idx) \<noteq> int (length ps) div n_ports a)"
  shows "\<exists>e. route_selected A X a ps = (pad_built (pad a), Inl e)"
  using assms unfolding route_selected_def Let_def
  by (auto simp: y0_optical_def y0_computed_def nb_ports_per_line_def pad_slots_def Let_def
      split: sum.splits)

lemma assertion_failure:
  assumes "getitem (ports (pad_component (pad a))) (port_name a) = Inr pp"
    and "n_ports a \<noteq> 0" and "pad_indices a = Some idx"
    and "int (length idx) \<noteq> int (length ps) div n_ports a"
  shows "route_selected A X a ps = (pad_built (pad a), Inl AssertionError)"
  using assms unfolding route_selected_def Let_def
  by (simp add: y0_optical_def y0_computed_def nb_ports_per_line_def pad_slots_def Let_def)

text \<open>
  Claim C7, as amended. In a call that reaches the check of line 144 (a non-empty list
  of ports, a pad prototype that has the port \<^verbatim>\<open>port_name\<close>, a row count other than 0),
  an explicit \<^verbatim>\<open>pad_indices\<close> whose length differs from \<open>N // n_rows\<close> makes the call fail
  with the assertion error before any pad is placed and any route built: only the pad
  factory has run. When \<^verbatim>\<open>pad_indices\<close> is omitted, the slots are the identity sequence
  \<open>0, ..., N // n_rows - 1\<close>.
\<close>

theorem pad_indices_length_checked:
  assumes "selected_ports a = Inr ps" and "ps \<noteq> []"
    and "getitem (ports (pad_component (pad a))) (port_name a) = Inr pp"
    and "n_ports a \<noteq> 0" and "pad_indices a = Some idx"
    and "int (length idx) \<noteq> int (length ps) div n_ports a"
  shows "route_pad_array A X a = (pad_built (pad a), Inl AssertionError)
    \<and> instances (pad_built (pad a)) = [] \<and> routed_ports (pad_built (pad a)) = []
    \<and> pad_slots None (int (length ps) div n_ports a)
        = Inr (map int [0..<nat (int (length ps) div n_ports a)])"
  using assms assertion_failure [of a pp idx ps A X] pad_built_quiet [of "pad a"]
  by (simp add: route_pad_array_def pad_slots_def)

theorem pad_indices_length_checked_witness:
  "selected_ports (demo_args\<lparr>pad_indices := Some [0, 1]\<rparr>) = Inr demo_ports
   \<and> demo_ports \<noteq> []
   \<and> getitem (ports (pad_component (pad (demo_args\<lparr>pad_indices := Some [0, 1]\<rparr>))))
        (port_name (demo_args\<lparr>pad_indices := Some [0, 1]\<rparr>)) = Inr (port_at ''W'' 0)
   \<and> n_ports (demo_args\<lparr>pad_indices := Some [0, 1]\<rparr>) \<noteq> 0
   \<and> int (length [0 :: int, 1])
        \<noteq> int (length demo_ports) div n_ports (demo_args\<lparr>pad_indices := Some [0, 1]\<rparr>)
   \<and> route_pad_array exact demo_collaborators (demo_args\<lparr>pad_indices := Some [0, 1]\<rparr>)
        = ([Built demo_pad], Inl AssertionError)"
proof -
  let ?a = "demo_args\<lparr>pad_indices := Some [0, 1]\<rparr>"
  have sel: "selected_ports ?a = Inr demo_ports"
    by (simp add: demo_defs selected_ports_def)
  have ne: "demo_ports \<noteq> []" by (simp add: demo_ports_def)
  have pp: "getitem (ports (pad_component (pad ?a))) (port_name ?a) = Inr (port_at ''W'' 0)"
    by (simp add: demo_defs getitem_def)
  have n: "n_ports ?a \<noteq> 0" by (simp add: demo_args_def)
  have idx: "pad_indices ?a = Some [0, 1]" by simp
  have len: "int (length [0 :: int, 1]) \<noteq> int (length demo_ports) div n_ports ?a"
    by (simp add: demo_args_def demo_ports_def)
  from pad_indices_length_checked [OF sel ne pp n idx len, of exact demo_collaborators]
  show ?thesis using sel ne pp n len by (simp add: demo_args_def)
qed

text \<open>
  Claim C7 as stated fails when no port is selected: the function returns the empty
  result at line 80, before it looks at \<^verbatim>\<open>pad_indices\<close>. Here \<open>N // n_rows\<close> is 0 and the
  list given has length 1.
\<close>

theorem pad_indices_unchecked_counterexample:
  "selected_ports (demo_args\<lparr>port_labels := Some [], pad_indices := Some [0]\<rparr>) = Inr []
   \<and> int (length [0 :: int])
       \<noteq> int (length ([] :: rat port list))
           div n_ports (demo_args\<lparr>port_labels := Some [], pad_indices := Some [0]\<rparr>)
   \<and> route_pad_array exact demo_collaborators
        (demo_args\<lparr>port_labels := Some [], pad_indices := Some [0]\<rparr>) = ([], Inr ([], [], PyInt 0))"
  by (simp add: demo_defs eval_defs)

subsection \<open>The baseline\<close>

lemma y0_optical_value:
  assumes "y0_optical A a ps = Inr y"
  shows "\<exists>v. y0_computed A a ps = Inr v
    \<and> y = (case max_y0_optical a of
             None \<Rightarrow> v
           | Some m \<Rightarrow> f_round1 A (if f_less A v m then v else m))"
  using assms by (auto simp: y0_optical_def py_min_def split: sum.splits option.splits)

text \<open>
  Claim C2. The baseline returned is \<open>y_min - fanout_length - pad_port_x - (K / 2) *
  separation\<close> rounded to one decimal place, and with a ceiling it is to be the smaller of
  the ceiling and that value. The code does the first and misses the second: line 111
  rounds once more after taking the minimum. In a call that returns, \<open>v\<close> being the value
  of lines 106 to 108, the baseline is \<open>v\<close> without a ceiling, and with a ceiling \<open>m\<close> it
  is \<open>round(v, 1)\<close> when \<open>v < m\<close> and \<open>round(m, 1)\<close> otherwise, which need not be \<open>m\<close> and
  can lie above it.
\<close>

theorem baseline_rounded_after_ceiling:
  assumes "selected_ports a = Inr ps" and "ps \<noteq> []"
    and "route_pad_array A X a = (tr, Inr (els, rws, y))"
  shows "\<exists>v. y0_computed A a ps = Inr v
    \<and> y = PyFloat (case max_y0_optical a of
                     None \<Rightarrow> v
                   | Some m \<Rightarrow> f_round1 A (if f_less A v m then v else m))"
proof -
  from route_pad_array_success [OF assms(3) assms(1) assms(2)]
  obtain y0 where "y = PyFloat y0" and "y0_optical A a ps = Inr y0"
    by (rule route_selected_success)
  then show ?thesis using y0_optical_value [of A a ps y0] by auto
qed

theorem baseline_rounded_after_ceiling_witness:
  "selected_ports (demo_args\<lparr>max_y0_optical := Some (335 / 32)\<rparr>) = Inr demo_ports
   \<and> demo_ports \<noteq> []
   \<and> y0_computed exact (demo_args\<lparr>max_y0_optical := Some (335 / 32)\<rparr>) demo_ports = Inr 68
   \<and> \<not> f_less exact 68 (335 / 32)
   \<and> snd (snd (projr (snd (route_pad_array exact demo_collaborators
              (demo_args\<lparr>max_y0_optical := Some (335 / 32)\<rparr>)))))
      = PyFloat (f_round1 exact (335 / 32))
   \<and> f_round1 exact (335 / 32) = 21 / 2
   \<and> f_less exact (335 / 32) (21 / 2)"
proof -
  let ?a = "demo_args\<lparr>max_y0_optical := Some (335 / 32)\<rparr>"
  have sel: "selected_ports ?a = Inr demo_ports"
    by (simp add: demo_defs selected_ports_def)
  have ne: "demo_ports \<noteq> []" by (simp add: demo_ports_def)
  have v: "y0_computed exact ?a demo_ports = Inr 68"
    by (simp add: demo_defs eval_defs)
  have r: "f_round1 exact (335 / 32) = 21 / 2"
    by (simp add: exact_def exact_round1_example)
  have cmp: "\<not> f_less exact 68 (335 / 32)" "f_less exact (335 / 32) (21 / 2)"
    by (simp_all add: exact_def)
  obtain tr els rws y where
    run: "route_pad_array exact demo_collaborators ?a = (tr, Inr (els, rws, y))"
    using demo_ceiling by (cases "route_pad_array exact demo_collaborators ?a") auto
  from baseline_rounded_after_ceiling [OF sel ne run]
  have "y = PyFloat (f_round1 exact (335 / 32))"
    using v cmp(1) by simp
  then show ?thesis using sel ne v r cmp run by simp
qed

subsection \<open>The abscissas of a single row\<close>

lemma routed_ports_map_comp: "routed_ports (map (Instantiated \<circ> f) xs) = []"
  by (induction xs) simp_all

lemma single_row_run:
  assumes n: "n_ports a = 1" and idx: "pad_indices a = None"
    and y0: "y0_optical A a ps = Inr y0"
    and row: "row = map (\<lambda>i. Placed \<lparr>parent = pad_component (pad a),
        ref_x = pad_x A a ps (int (length ps)) i, ref_y = pad_y A a ps y0 0,
        ref_rotation = pad_rotation a, ref_port_id = port_name a\<rparr>)
        (map int [0..<length ps])"
  shows "instances (fst (route_selected A X a ps)) = row
    \<and> (\<forall>els rws y. snd (route_selected A X a ps) = Inr (els, rws, y) \<longrightarrow> rws = [row])
    \<and> (\<forall>e. override_ports a (ordered_ports (direction_ports_from_list_ports X ps)) = Inl e
          \<longrightarrow> snd (route_selected A X a ps) = Inl e
              \<and> routed_ports (fst (route_selected A X a ps)) = [])"
  unfolding route_selected_def Let_def route_lines_single
  using n idx y0
  by (auto simp: nb_ports_per_line_def pad_slots_def place_row_proto row
        instances_append instances_map_comp routed_ports_append routed_ports_map_comp
        pad_built_quiet
      split: sum.splits prod.splits dest: pair_ports_quiet)






subsection \<open>What exists when a call fails\<close>

text \<open>
  Claim C4, as amended. A call that raises returns nothing. When the failure is an
  unknown port label, a pad prototype without the port \<^verbatim>\<open>port_name\<close>, a row count of 0 or
  a \<^verbatim>\<open>pad_indices\<close> list of the wrong length, the call raises before any pad is placed and
  any route built. With one row and the default \<^verbatim>\<open>pad_indices\<close>, a connection id that the
  device does not have makes the call raise when all \<open>N\<close> pads have been placed and no
  route has been built.
\<close>

theorem failure_points:
  "((\<exists>e. selected_ports a = Inl e)
     \<or> (\<exists>qs. selected_ports a = Inr qs \<and> qs \<noteq> []
           \<and> (isl (getitem (ports (pad_component (pad a))) (port_name a)) \<or> n_ports a = 0
               \<or> (\<exists>idx. pad_indices a = Some idx
                     \<and> int (length idx) \<noteq> int (length qs) div n_ports a)))
     \<longrightarrow> isl (snd (route_pad_array A X a)) \<and> instances (fst (route_pad_array A X a)) = []
         \<and> routed_ports (fst (route_pad_array A X a)) = [])
   \<and> (selected_ports a = Inr ps \<and> ps \<noteq> []
       \<and> getitem (ports (pad_component (pad a))) (port_name a) = Inr pp
       \<and> n_ports a = 1 \<and> pad_indices a = None
       \<and> connected_port_list_ids a = Some ids \<and> ids \<noteq> []
       \<and> getitems (ports (component a)) ids = Inl e
     \<longrightarrow> snd (route_pad_array A X a) = Inl e
         \<and> length (instances (fst (route_pad_array A X a))) = length ps
         \<and> routed_ports (fst (route_pad_array A X a)) = [])"
proof (intro conjI impI)
  assume early: "(\<exists>e. selected_ports a = Inl e)
     \<or> (\<exists>qs. selected_ports a = Inr qs \<and> qs \<noteq> []
           \<and> (isl (getitem (ports (pad_component (pad a))) (port_name a)) \<or> n_ports a = 0
               \<or> (\<exists>idx. pad_indices a = Some idx
                     \<and> int (length idx) \<noteq> int (length qs) div n_ports a)))"
  then consider
    (selection) e' where "selected_ports a = Inl e'"
  | (preparation) qs where "selected_ports a = Inr qs" and "qs \<noteq> []"
      and "isl (getitem (ports (pad_component (pad a))) (port_name a)) \<or> n_ports a = 0
       \<or> (\<exists>idx. pad_indices a = Some idx
             \<and> int (length idx) \<noteq> int (length qs) div n_ports a)"
    by blast
  then have "isl (snd (route_pad_array A X a)) \<and> instances (fst (route_pad_array A X a)) = []
         \<and> routed_ports (fst (route_pad_array A X a)) = []"
  proof cases
    case selection
    then show ?thesis by (simp add: route_pad_array_def)
  next
    case preparation
    from preparation(3) obtain e' where
      "route_selected A X a qs = (pad_built (pad a), Inl e')"
      using early_failure [of a qs A X] by blast
    then show ?thesis
      using preparation(1,2) pad_built_quiet [of "pad a"] by (simp add: route_pad_array_def)
  qed
  then show "isl (snd (route_pad_array A X a))"
    and "instances (fst (route_pad_array A X a)) = []"
    and "routed_ports (fst (route_pad_array A X a)) = []"
    by simp_all
next
  assume late: "selected_ports a = Inr ps \<and> ps \<noteq> []
       \<and> getitem (ports (pad_component (pad a))) (port_name a) = Inr pp
       \<and> n_ports a = 1 \<and> pad_indices a = None
       \<and> connected_port_list_ids a = Some ids \<and> ids \<noteq> []
       \<and> getitems (ports (component a)) ids = Inl e"
  then obtain y0 where y0: "y0_optical A a ps = Inr y0"
    by (auto simp: y0_optical_def y0_computed_def Let_def)
  define row where "row = map (\<lambda>i. Placed \<lparr>parent = pad_component (pad a),
        ref_x = pad_x A a ps (int (length ps)) i, ref_y = pad_y A a ps y0 0,
        ref_rotation = pad_rotation a, ref_port_id = port_name a\<rparr>)
        (map int [0..<length ps])"
  have whole: "route_pad_array A X a = route_selected A X a ps"
    using late by (simp add: route_pad_array_def)
  have over: "override_ports a (ordered_ports (direction_ports_from_list_ports X ps)) = Inl e"
    using late by (simp add: override_ports_def)
  from late have n: "n_ports a = 1" and idx: "pad_indices a = None" by simp_all
  from single_row_run [OF n idx y0 row_def, of X] over
  have "instances (fst (route_pad_array A X a)) = row"
    and "snd (route_pad_array A X a) = Inl e"
    and "routed_ports (fst (route_pad_array A X a)) = []"
    unfolding whole by blast+
  then show "snd (route_pad_array A X a) = Inl e"
    and "length (instances (fst (route_pad_array A X a))) = length ps"
    and "routed_ports (fst (route_pad_array A X a)) = []"
    by (simp_all add: row_def)
qed

theorem failure_points_witness:
  "selected_ports (demo_args\<lparr>n_ports := 0\<rparr>) = Inr demo_ports \<and> demo_ports \<noteq> []
   \<and> n_ports (demo_args\<lparr>n_ports := 0\<rparr>) = 0
   \<and> snd (route_pad_array exact demo_collaborators (demo_args\<lparr>n_ports := 0\<rparr>))
       = Inl ZeroDivisionError
   \<and> instances (fst (route_pad_array exact demo_collaborators (demo_args\<lparr>n_ports := 0\<rparr>))) = []
   \<and> routed_ports (fst (route_pad_array exact demo_collaborators (demo_args\<lparr>n_ports := 0\<rparr>)))
       = []
   \<and> selected_ports (demo_args\<lparr>connected_port_list_ids := Some [''zz'']\<rparr>) = Inr demo_ports
   \<and> getitem (ports (pad_component (pad (demo_args\<lparr>connected_port_list_ids := Some [''zz'']\<rparr>))))
        (port_name (demo_args\<lparr>connected_port_list_ids := Some [''zz'']\<rparr>))
       = Inr (port_at ''W'' 0)
   \<and> n_ports (demo_args\<lparr>connected_port_list_ids := Some [''zz'']\<rparr>) = 1
   \<and> pad_indices (demo_args\<lparr>connected_port_list_ids := Some [''zz'']\<rparr>) = None
   \<and> getitems (ports (component (demo_args\<lparr>connected_port_list_ids := Some [''zz'']\<rparr>)))
        [''zz''] = Inl KeyError
   \<and> snd (route_pad_array exact demo_collaborators
            (demo_args\<lparr>connected_port_list_ids := Some [''zz'']\<rparr>)) = Inl KeyError
   \<and> length (instances (fst (route_pad_array exact demo_collaborators
            (demo_args\<lparr>connected_port_list_ids := Some [''zz'']\<rparr>)))) = length demo_ports
   \<and> routed_ports (fst (route_pad_array exact demo_collaborators
            (demo_args\<lparr>connected_port_list_ids := Some [''zz'']\<rparr>))) = []"
proof -
  let ?a = "demo_args\<lparr>n_ports := 0\<rparr>"
  let ?b = "demo_args\<lparr>connected_port_list_ids := Some [''zz'']\<rparr>"
  have sel: "selected_ports ?a = Inr demo_ports"
    by (simp add: demo_defs selected_ports_def)
  have ne: "demo_ports \<noteq> []" by (simp add: demo_ports_def)
  have n: "n_ports ?a = 0" by simp
  have early: "(\<exists>e. selected_ports ?a = Inl e)
     \<or> (\<exists>qs. selected_ports ?a = Inr qs \<and> qs \<noteq> []
           \<and> (isl (getitem (ports (pad_component (pad ?a))) (port_name ?a)) \<or> n_ports ?a = 0
               \<or> (\<exists>idx. pad_indices ?a = Some idx
                     \<and> int (length idx) \<noteq> int (length qs) div n_ports ?a)))"
    using sel ne n by blast
  have selb: "selected_ports ?b = Inr demo_ports"
    by (simp add: demo_defs selected_ports_def)
  have pp: "getitem (ports (pad_component (pad ?b))) (port_name ?b) = Inr (port_at ''W'' 0)"
    by (simp add: demo_defs getitem_def)
  have nb: "n_ports ?b = 1" and idx: "pad_indices ?b = None"
    and ids: "connected_port_list_ids ?b = Some [''zz'']"
    by (simp_all add: demo_args_def)
  have missing: "getitems (ports (component ?b)) [''zz''] = Inl KeyError"
    by (simp add: demo_defs getitem_def)
  from failure_points [of ?a exact demo_collaborators]
  have first: "isl (snd (route_pad_array exact demo_collaborators ?a))
      \<and> instances (fst (route_pad_array exact demo_collaborators ?a)) = []
      \<and> routed_ports (fst (route_pad_array exact demo_collaborators ?a)) = []"
    using early by blast
  from failure_points [of ?b exact demo_collaborators demo_ports "port_at ''W'' 0"
      "[''zz'']" KeyError]
  have second: "snd (route_pad_array exact demo_collaborators ?b) = Inl KeyError
      \<and> length (instances (fst (route_pad_array exact demo_collaborators ?b))) = length demo_ports
      \<and> routed_ports (fst (route_pad_array exact demo_collaborators ?b)) = []"
    using selb ne pp nb idx ids missing by blast
  show ?thesis
    using sel ne first second selb pp nb idx missing demo_zero_rows by simp
qed

text \<open>
  Claim C4 as stated fails: a connection id that the device does not have is looked up at
  line 159, after the loop of line 146 has placed the pads. The call raises
  \<^verbatim>\<open>KeyError\<close> with five pads already made.
\<close>

theorem late_lookup_counterexample:
  "snd (route_pad_array exact demo_collaborators
          (demo_args\<lparr>connected_port_list_ids := Some [''zz'']\<rparr>)) = Inl KeyError
   \<and> length (instances (fst (route_pad_array exact demo_collaborators
          (demo_args\<lparr>connected_port_list_ids := Some [''zz'']\<rparr>)))) = 5
   \<and> instances (fst (route_pad_array exact demo_collaborators
          (demo_args\<lparr>connected_port_list_ids := Some [''zz'']\<rparr>))) \<noteq> []"
  unfolding demo_bad_id by (simp add: instances_map_comp comp_def)

end
